theory Spec2Isabelle
  imports Complex_Main
begin

section \<open>The Timer of \<open>src/src/timer.hpp\<close>\<close>

text \<open>
  The class \<open>hector_timeit::Timer\<close> becomes a record with one field per data member
  (the member names lose their trailing underscore, which is not an Isabelle name).
  A \<open>long\<close> is an \<open>int\<close>: no claim depends on the width, and signed overflow is
  undefined in the source. A \<open>time_point\<close> of the high resolution clock is its count of
  nanoseconds since the clock's epoch.

  The clocks are the environment. Every call site of a clock has its own reading, passed
  to the operation as an argument: the reading is what the clock would return if the call
  is made. \<open>getCpuTime\<close> returns \<open>false\<close> and leaves its argument alone when the clock
  fails, so its reading is an \<open>int option\<close>.

  \<open>assert\<close> is kept as a branch of its own: an operation returns \<open>Inl AssertionFailed\<close>
  where the assertion of the source aborts the program.
\<close>

datatype TimeUnit = Default | Seconds | Milliseconds | Microseconds | Nanoseconds

datatype error = AssertionFailed

record Timer =
  run_times :: "int list"
  cpu_run_times :: "int list"
  name :: string
  print_time_unit :: TimeUnit
  start_a :: int
  start_b :: int
  elapsed_time :: int
  elapsed_cpu_time :: int
  cpu_start_a :: int
  cpu_start_b :: int
  running :: bool
  cpu_time_valid_a :: bool
  cpu_time_valid_b :: bool
  print_on_destruct :: bool

text \<open>The readings of the four clock calls of \<open>start()\<close>, in the order of the calls.\<close>

record start_reads =
  rd_start_a :: int
  rd_start_b :: int
  rd_cpu_start_a :: "int option"
  rd_cpu_start_b :: "int option"

text \<open>The readings of the four clock calls of \<open>stop()\<close>, in the order of the calls.\<close>

record stop_reads =
  rd_time_b :: "int option"
  rd_time_a :: "int option"
  rd_time_point_b :: int
  rd_time_point_a :: int

text \<open>The division of C++ on \<open>long\<close>: the quotient is truncated towards zero.\<close>

definition cdiv :: "int \<Rightarrow> int \<Rightarrow> int" where
  "cdiv a b = sgn a * sgn b * (\<bar>a\<bar> div \<bar>b\<bar>)"

text \<open>
  \<open>getCpuTime(long &val)\<close>: the first argument is the reading of the clock, the second
  the value of \<open>val\<close> before the call; the result is the returned flag and \<open>val\<close> after.
\<close>

definition getCpuTime :: "int option \<Rightarrow> int \<Rightarrow> bool \<times> int" where
  "getCpuTime reading val = (case reading of None \<Rightarrow> (False, val) | Some v \<Rightarrow> (True, v))"

definition internalGetDuration :: "int \<Rightarrow> int \<Rightarrow> int" where
  "internalGetDuration start_point end_point = end_point - start_point"

definition start :: "Timer \<Rightarrow> start_reads \<Rightarrow> Timer" where
  "start t s =
     (if running t then t
      else
        let (valid_a, csa) = getCpuTime (rd_cpu_start_a s) (cpu_start_a t);
            (valid_b, csb) = getCpuTime (rd_cpu_start_b s) (cpu_start_b t)
        in t\<lparr>running := True,
             start_a := rd_start_a s,
             start_b := rd_start_b s,
             cpu_time_valid_a := valid_a, cpu_start_a := csa,
             cpu_time_valid_b := valid_b, cpu_start_b := csb\<rparr>)"

definition stop :: "Timer \<Rightarrow> stop_reads \<Rightarrow> error + Timer" where
  "stop t s =
     (if \<not> running t then Inr t
      else
        let time_a = 0;
            time_b = 0;
            (valid_b, time_b) =
              (if cpu_time_valid_a t \<and> cpu_time_valid_b t then getCpuTime (rd_time_b s) time_b
               else (cpu_time_valid_b t, time_b));
            (valid_a, time_a) =
              (if cpu_time_valid_a t then getCpuTime (rd_time_a s) time_a
               else (cpu_time_valid_a t, time_a));
            time_point_b = rd_time_point_b s;
            time_point_a = rd_time_point_a s;
            cpu_diff =
              (if valid_a \<and> valid_b then (time_a - cpu_start_a t) - (time_b - cpu_start_b t)
               else 0);
            cpu_elapsed =
              (if valid_b then (time_b - cpu_start_b t) - cdiv cpu_diff 2
               else time_a - cpu_start_a t)
        in if valid_a \<and> \<not> cpu_elapsed \<ge> 0 then Inl AssertionFailed
           else
             let wall_time_b = internalGetDuration (start_b t) time_point_b;
                 wall_time_a = internalGetDuration (start_a t) time_point_a;
                 elapsed = wall_time_b + cdiv wall_time_b 2 - cdiv wall_time_a 2 - 2 * cpu_diff
             in if \<not> elapsed \<ge> 0 then Inl AssertionFailed
                else Inr (t\<lparr>cpu_time_valid_a := valid_a,
                            cpu_time_valid_b := valid_b,
                            elapsed_cpu_time :=
                              (if valid_a then elapsed_cpu_time t + cpu_elapsed
                               else elapsed_cpu_time t),
                            elapsed_time := elapsed_time t + elapsed,
                            running := False\<rparr>))"

definition reset :: "bool \<Rightarrow> Timer \<Rightarrow> stop_reads \<Rightarrow> error + Timer" where
  "reset new_run t s =
     (case stop t s of
        Inl e \<Rightarrow> Inl e
      | Inr t1 \<Rightarrow>
          let t2 =
            (if new_run then
               (if elapsed_time t1 > 0 then
                  t1\<lparr>run_times := run_times t1 @ [elapsed_time t1],
                     cpu_run_times := cpu_run_times t1 @
                       [if cpu_time_valid_a t1 then elapsed_cpu_time t1 else - 1]\<rparr>
                else t1)
             else t1\<lparr>run_times := [], cpu_run_times := []\<rparr>)
          in Inr (t2\<lparr>elapsed_time := 0, elapsed_cpu_time := 0,
                     cpu_time_valid_a := True, cpu_time_valid_b := True\<rparr>))"

text \<open>The two getters read a clock only while the timer runs.\<close>

definition getElapsedTime :: "Timer \<Rightarrow> int \<Rightarrow> int" where
  "getElapsedTime t now =
     (if running t then elapsed_time t + internalGetDuration (start_b t) now
      else elapsed_time t)"

definition getElapsedCpuTime :: "Timer \<Rightarrow> int option \<Rightarrow> int" where
  "getElapsedCpuTime t reading =
     (if \<not> cpu_time_valid_a t then - 1
      else if running t then
        (case getCpuTime reading 0 of
           (False, _) \<Rightarrow> - 1
         | (True, time) \<Rightarrow> elapsed_cpu_time t + (time - cpu_start_a t))
      else elapsed_cpu_time t)"

definition getRunTimes :: "Timer \<Rightarrow> int \<Rightarrow> int list" where
  "getRunTimes t now =
     (let elapsed = getElapsedTime t now
      in if elapsed \<noteq> 0 then run_times t @ [elapsed] else run_times t)"

definition getCpuRunTimes :: "Timer \<Rightarrow> int option \<Rightarrow> int list" where
  "getCpuRunTimes t reading =
     (let elapsed_cpu = getElapsedCpuTime t reading
      in if elapsed_cpu > 0 then cpu_run_times t @ [elapsed_cpu] else cpu_run_times t)"

text \<open>
  The constructor: the default member initialisers, then \<open>start()\<close> when \<open>autostart\<close>
  is set. A default constructed \<open>time_point\<close> is the epoch.
\<close>

definition Timer_members :: "string \<Rightarrow> TimeUnit \<Rightarrow> bool \<Rightarrow> Timer" where
  "Timer_members nm unit pod =
     \<lparr>run_times = [], cpu_run_times = [], name = nm, print_time_unit = unit,
      start_a = 0, start_b = 0, elapsed_time = 0, elapsed_cpu_time = 0,
      cpu_start_a = 0, cpu_start_b = 0, running = False,
      cpu_time_valid_a = True, cpu_time_valid_b = True, print_on_destruct = pod\<rparr>"

definition Timer_new :: "string \<Rightarrow> TimeUnit \<Rightarrow> bool \<Rightarrow> bool \<Rightarrow> start_reads \<Rightarrow> Timer" where
  "Timer_new nm unit autostart pod s =
     (if autostart then start (Timer_members nm unit pod) s else Timer_members nm unit pod)"

subsection \<open>Sequences of calls\<close>

text \<open>
  A call of a public member function, with the readings of the clock calls it may make.
  The getters are \<open>const\<close>: they leave the object as it is.
\<close>

datatype call =
    Start start_reads
  | Stop stop_reads
  | Reset bool stop_reads
  | GetElapsedTime int
  | GetElapsedCpuTime "int option"
  | GetRunTimes int
  | GetCpuRunTimes "int option"

fun step :: "Timer \<Rightarrow> call \<Rightarrow> error + Timer" where
  "step t (Start s) = Inr (start t s)"
| "step t (Stop s) = stop t s"
| "step t (Reset new_run s) = reset new_run t s"
| "step t (GetElapsedTime now) = Inr t"
| "step t (GetElapsedCpuTime reading) = Inr t"
| "step t (GetRunTimes now) = Inr t"
| "step t (GetCpuRunTimes reading) = Inr t"

fun calls :: "Timer \<Rightarrow> call list \<Rightarrow> error + Timer" where
  "calls t [] = Inr t"
| "calls t (c # cs) = (case step t c of Inl e \<Rightarrow> Inl e | Inr t' \<Rightarrow> calls t' cs)"

subsection \<open>The quantities of the bias correction\<close>

text \<open>
  The comment in \<open>start()\<close> names the durations between the stored start samples and the
  stop samples: the inner bracket (the \<open>B\<close> samples) and the outer bracket (the \<open>A\<close>
  samples), for the wall clock and for the CPU clock. \<open>cpu_diff_of\<close> is the local
  \<open>cpu_diff\<close> of \<open>stop()\<close>: the outer CPU duration minus the inner one when all four
  CPU samples are valid, and 0 otherwise.
\<close>

definition D_inner :: "Timer \<Rightarrow> stop_reads \<Rightarrow> int" where
  "D_inner t s = rd_time_point_b s - start_b t"

definition D_outer :: "Timer \<Rightarrow> stop_reads \<Rightarrow> int" where
  "D_outer t s = rd_time_point_a s - start_a t"

definition D_inner_cpu :: "Timer \<Rightarrow> int \<Rightarrow> int" where
  "D_inner_cpu t time_b = time_b - cpu_start_b t"

definition D_outer_cpu :: "Timer \<Rightarrow> int \<Rightarrow> int" where
  "D_outer_cpu t time_a = time_a - cpu_start_a t"

definition cpu_diff_of :: "Timer \<Rightarrow> stop_reads \<Rightarrow> int" where
  "cpu_diff_of t s =
     (case (cpu_time_valid_a t \<and> cpu_time_valid_b t, rd_time_b s, rd_time_a s) of
        (True, Some time_b, Some time_a) \<Rightarrow> D_outer_cpu t time_a - D_inner_cpu t time_b
      | _ \<Rightarrow> 0)"

text \<open>
  What every call keeps: the accumulators are not negative (the assertions of \<open>stop()\<close>
  see to it), and the two histories have the same length.
\<close>

definition timer_inv :: "Timer \<Rightarrow> bool" where
  "timer_inv t \<longleftrightarrow>
     0 \<le> elapsed_time t \<and> 0 \<le> elapsed_cpu_time t \<and>
     length (run_times t) = length (cpu_run_times t)"

subsection \<open>Example readings and states\<close>

text \<open>
  A timer started at wall readings 0 and 10 with no CPU clock, stopped at 110 and 120
  (\<open>ex_paused\<close>: 100 + 50 - 60 = 90 ns), then committed by \<open>reset(true)\<close>
  (\<open>ex_committed\<close>); and a timer with a CPU clock (\<open>ex_running_cpu\<close>,
  \<open>ex_stopped_cpu\<close>).
\<close>

definition ex_start :: start_reads where
  "ex_start = \<lparr>rd_start_a = 0, rd_start_b = 10, rd_cpu_start_a = None, rd_cpu_start_b = None\<rparr>"

definition ex_stop :: stop_reads where
  "ex_stop = \<lparr>rd_time_b = None, rd_time_a = None, rd_time_point_b = 110, rd_time_point_a = 120\<rparr>"

definition ex_start_cpu :: start_reads where
  "ex_start_cpu = \<lparr>rd_start_a = 0, rd_start_b = 20, rd_cpu_start_a = Some 5, rd_cpu_start_b = Some 7\<rparr>"

definition ex_stop_cpu :: stop_reads where
  "ex_stop_cpu = \<lparr>rd_time_b = Some 107, rd_time_a = Some 111, rd_time_point_b = 130, rd_time_point_a = 140\<rparr>"

definition ex_paused :: Timer where
  "ex_paused =
     \<lparr>run_times = [], cpu_run_times = [], name = ''t'', print_time_unit = Default,
      start_a = 0, start_b = 10, elapsed_time = 90, elapsed_cpu_time = 0,
      cpu_start_a = 0, cpu_start_b = 0, running = False,
      cpu_time_valid_a = False, cpu_time_valid_b = False, print_on_destruct = False\<rparr>"

definition ex_committed :: Timer where
  "ex_committed =
     \<lparr>run_times = [90], cpu_run_times = [- 1], name = ''t'', print_time_unit = Default,
      start_a = 0, start_b = 10, elapsed_time = 0, elapsed_cpu_time = 0,
      cpu_start_a = 0, cpu_start_b = 0, running = False,
      cpu_time_valid_a = True, cpu_time_valid_b = True, print_on_destruct = False\<rparr>"

definition ex_running_cpu :: Timer where
  "ex_running_cpu = Timer_new ''t'' Default True False ex_start_cpu"

definition ex_stopped_cpu :: Timer where
  "ex_stopped_cpu =
     \<lparr>run_times = [], cpu_run_times = [], name = ''t'', print_time_unit = Default,
      start_a = 0, start_b = 20, elapsed_time = 83, elapsed_cpu_time = 97,
      cpu_start_a = 5, cpu_start_b = 7, running = False,
      cpu_time_valid_a = True, cpu_time_valid_b = True, print_on_destruct = False\<rparr>"

section \<open>Statistics and formatting\<close>

subsection \<open>Numbers\<close>

text \<open>
  A \<open>double\<close> is a real number or one of the three special values of IEEE 754. The
  operations below are the IEEE ones where the special values are concerned; on finite
  values they are exact, so rounding and overflow to infinity are not modelled, and
  neither is the sign of zero (a zero divisor is taken as positive, which it is for the
  counts divided by here). A division by zero yields a special value: it is no fault.
\<close>

datatype double = Finite real | PosInf | NegInf | NaN

fun d_neg :: "double \<Rightarrow> double" where
  "d_neg (Finite x) = Finite (- x)"
| "d_neg PosInf = NegInf"
| "d_neg NegInf = PosInf"
| "d_neg NaN = NaN"

fun d_add :: "double \<Rightarrow> double \<Rightarrow> double" where
  "d_add (Finite x) (Finite y) = Finite (x + y)"
| "d_add (Finite x) PosInf = PosInf"
| "d_add (Finite x) NegInf = NegInf"
| "d_add PosInf (Finite y) = PosInf"
| "d_add NegInf (Finite y) = NegInf"
| "d_add PosInf PosInf = PosInf"
| "d_add NegInf NegInf = NegInf"
| "d_add _ _ = NaN"

definition d_sub :: "double \<Rightarrow> double \<Rightarrow> double" where
  "d_sub a b = d_add a (d_neg b)"

fun d_mul :: "double \<Rightarrow> double \<Rightarrow> double" where
  "d_mul (Finite x) (Finite y) = Finite (x * y)"
| "d_mul (Finite x) PosInf = (if x = 0 then NaN else if 0 < x then PosInf else NegInf)"
| "d_mul (Finite x) NegInf = (if x = 0 then NaN else if 0 < x then NegInf else PosInf)"
| "d_mul PosInf (Finite y) = (if y = 0 then NaN else if 0 < y then PosInf else NegInf)"
| "d_mul NegInf (Finite y) = (if y = 0 then NaN else if 0 < y then NegInf else PosInf)"
| "d_mul PosInf PosInf = PosInf"
| "d_mul NegInf NegInf = PosInf"
| "d_mul PosInf NegInf = NegInf"
| "d_mul NegInf PosInf = NegInf"
| "d_mul _ _ = NaN"

fun d_div :: "double \<Rightarrow> double \<Rightarrow> double" where
  "d_div (Finite x) (Finite y) =
     (if y \<noteq> 0 then Finite (x / y)
      else if x = 0 then NaN else if 0 < x then PosInf else NegInf)"
| "d_div (Finite x) PosInf = Finite 0"
| "d_div (Finite x) NegInf = Finite 0"
| "d_div PosInf (Finite y) = (if 0 \<le> y then PosInf else NegInf)"
| "d_div NegInf (Finite y) = (if 0 \<le> y then NegInf else PosInf)"
| "d_div _ _ = NaN"

fun d_sqrt :: "double \<Rightarrow> double" where
  "d_sqrt (Finite x) = (if x < 0 then NaN else Finite (sqrt x))"
| "d_sqrt PosInf = PosInf"
| "d_sqrt _ = NaN"

text \<open>The comparison \<open><\<close> of two doubles: false as soon as one of them is a NaN.\<close>

fun d_less :: "double \<Rightarrow> double \<Rightarrow> bool" where
  "d_less (Finite x) (Finite y) = (x < y)"
| "d_less (Finite x) PosInf = True"
| "d_less NegInf (Finite y) = True"
| "d_less NegInf PosInf = True"
| "d_less _ _ = False"

text \<open>
  The template parameter \<open>T\<close> of \<open>printTimeString\<close> is \<open>long\<close> (a run time, the
  maximum, the minimum), \<open>long long\<close> (the sum) or \<open>double\<close> (the mean, the deviation).
\<close>

datatype number = Long int | Double double

fun to_double :: "number \<Rightarrow> double" where
  "to_double (Long n) = Finite (of_int n)"
| "to_double (Double d) = d"

text \<open>\<open>time < 5000\<close>: a comparison of integers for a \<open>long\<close>, of doubles for a \<open>double\<close>.\<close>

fun less_int :: "number \<Rightarrow> int \<Rightarrow> bool" where
  "less_int (Long n) k = (n < k)"
| "less_int (Double d) k = d_less d (Finite (of_int k))"

text \<open>
  A \<open>size_t\<close> is a \<open>nat\<close>. Its subtraction wraps around at \<open>2 ^ 64\<close>, and both
  subtractions of the source can: \<open>pad - text.length()\<close> and \<open>count - 1\<close>. The
  increments cannot: \<open>count\<close> stays below the size of the vector and \<open>i\<close> below
  \<open>2 ^ 63\<close> plus the length of a string.
\<close>

definition size_sub :: "nat \<Rightarrow> nat \<Rightarrow> nat" where
  "size_sub a b = nat ((int a - int b) mod 2 ^ 64)"

subsection \<open>Printing\<close>

text \<open>
  A function that writes to a stream returns the characters it writes. The insertion
  \<open>stream << x\<close> of a number is the standard library's: it is the parameter \<open>put\<close>,
  which for a \<open>double\<close> is the fixed notation with three decimals that
  \<open>printTimeString\<close> sets on its stream.
\<close>

definition printPaddedString :: "string \<Rightarrow> nat \<Rightarrow> string" where
  "printPaddedString text pad =
     (let n = (if pad \<noteq> 0 then size_sub pad (length text) div 2 else 0);
          i = n + length text
      in replicate n CHR '' '' @ text @ replicate (pad - i) CHR '' '')"

definition printTimeString :: "(number \<Rightarrow> string) \<Rightarrow> number \<Rightarrow> TimeUnit \<Rightarrow> nat \<Rightarrow> string" where
  "printTimeString put time unit pad =
     printPaddedString
       (case unit of
          Seconds \<Rightarrow> put (Double (d_div (to_double time) (Finite 1000000000))) @ ''s''
        | Milliseconds \<Rightarrow> put (Double (d_div (to_double time) (Finite 1000000))) @ ''ms''
        | Microseconds \<Rightarrow> put (Double (d_div (to_double time) (Finite 1000))) @ ''us''
        | Nanoseconds \<Rightarrow> put time @ ''ns''
        | Default \<Rightarrow>
            (if less_int time 5000 then put time @ ''ns''
             else if d_less (to_double time) (Finite 5000000) then
               put (Double (d_div (to_double time) (Finite 1000))) @ ''us''
             else if d_less (to_double time) (Finite 5000000000) then
               put (Double (d_div (to_double time) (Finite 1000000))) @ ''ms''
             else put (Double (d_div (to_double time) (Finite 1000000000))) @ ''s''))
       pad"

definition square :: "double \<Rightarrow> double" where
  "square x = d_mul x x"

definition INT64_MAX :: int where
  "INT64_MAX = 9223372036854775807"

text \<open>
  The first loop of \<open>printStats\<close>, over the state \<open>(max, min, sum, count)\<close>, and the
  second, over \<open>var\<close>.
\<close>

fun printStats_loop1 :: "int list \<Rightarrow> int \<times> int \<times> int \<times> nat \<Rightarrow> int \<times> int \<times> int \<times> nat" where
  "printStats_loop1 [] acc = acc"
| "printStats_loop1 (time # rest) (max_t, min_t, sum_t, count) =
     (if time = - 1 then printStats_loop1 rest (max_t, min_t, sum_t, count)
      else printStats_loop1 rest
             (if time > max_t then time else max_t, if time < min_t then time else min_t,
              sum_t + time, count + 1))"

fun printStats_loop2 :: "double \<Rightarrow> int list \<Rightarrow> double \<Rightarrow> double" where
  "printStats_loop2 mean [] var = var"
| "printStats_loop2 mean (time # rest) var =
     (if time = - 1 then printStats_loop2 mean rest var
      else printStats_loop2 mean rest (d_add var (square (d_sub (Finite (of_int time)) mean))))"

text \<open>The values of the locals of \<open>printStats\<close> where it tests \<open>count == 0\<close>.\<close>

record stats =
  st_max :: int
  st_min :: int
  st_sum :: int
  st_count :: nat
  st_mean :: double
  st_var :: double

definition printStats_locals :: "int list \<Rightarrow> stats" where
  "printStats_locals runs =
     (let (max_t, min_t, sum_t, count) = printStats_loop1 runs (0, INT64_MAX, 0, 0);
          mean = d_div (Finite (of_int sum_t)) (Finite (of_nat count));
          var = printStats_loop2 mean runs (Finite 0);
          var = d_div var (Finite (of_nat (size_sub count 1)))
      in \<lparr>st_max = max_t, st_min = min_t, st_sum = sum_t, st_count = count,
          st_mean = mean, st_var = var\<rparr>)"

definition endl :: string where
  "endl = [CHR 0x0A]"

definition printStats :: "(number \<Rightarrow> string) \<Rightarrow> int list \<Rightarrow> TimeUnit \<Rightarrow> string" where
  "printStats put runs unit =
     (let st = printStats_locals runs
      in if st_count st = 0 then ''None of the runs had valid times!''
         else
           let avg = printTimeString put (Double (st_mean st)) unit 0 @ '' +- '' @
                     printTimeString put (Double (d_sqrt (st_var st))) unit 0
           in printPaddedString avg 40 @
              printTimeString put (Long (st_max st)) unit 16 @
              printTimeString put (Long (st_min st)) unit 16 @
              printTimeString put (Long (st_sum st)) unit 16 @
              (if st_count st \<noteq> length runs then
                 endl @ ''Warning: Only '' @ put (Long (int (st_count st))) @ '' of '' @
                 put (Long (int (length runs))) @ '' had valid times!''
               else []))"

text \<open>
  The rule of the specification for the automatic unit, on the number of nanoseconds:
  nanoseconds below 5,000, microseconds below 5,000,000, milliseconds below
  5,000,000,000, seconds otherwise.
\<close>

definition auto_unit :: "real \<Rightarrow> TimeUnit" where
  "auto_unit ns =
     (if ns < 5000 then Nanoseconds
      else if ns < 5000000 then Microseconds
      else if ns < 5000000000 then Milliseconds
      else Seconds)"

text \<open>A stand-in for the insertion of a number into a stream, for the examples.\<close>

definition ex_put :: "number \<Rightarrow> string" where
  "ex_put x = (case x of Long n \<Rightarrow> ''long'' | Double d \<Rightarrow> ''double'')"

section \<open>Properties of the Timer\<close>

subsection \<open>What \<open>stop()\<close> and \<open>reset()\<close> keep\<close>

lemma stop_not_running: "\<not> running t \<Longrightarrow> stop t s = Inr t"
  by (simp add: stop_def)

lemma stop_Inr_stopped: "stop t s = Inr t' \<Longrightarrow> \<not> running t'"
  by (auto simp: stop_def Let_def split: if_splits prod.splits)

lemma stop_keeps_histories:
  "stop t s = Inr t' \<Longrightarrow> run_times t' = run_times t \<and> cpu_run_times t' = cpu_run_times t"
  by (auto simp: stop_def Let_def split: if_splits prod.splits)

lemma stop_elapsed_mono:
  "stop t s = Inr t' \<Longrightarrow> elapsed_time t \<le> elapsed_time t' \<and> elapsed_cpu_time t \<le> elapsed_cpu_time t'"
  by (auto simp: stop_def Let_def split: if_splits prod.splits)

lemma start_keeps:
  "run_times (start t s) = run_times t \<and> cpu_run_times (start t s) = cpu_run_times t
   \<and> elapsed_time (start t s) = elapsed_time t \<and> elapsed_cpu_time (start t s) = elapsed_cpu_time t"
  by (simp add: start_def Let_def split: prod.splits)

lemma reset_Inr:
  "reset new_run t s = Inr t' \<Longrightarrow> \<exists>t1. stop t s = Inr t1"
  by (cases "stop t s") (simp_all add: reset_def)

lemma reset_after_stop:
  "stop t s = Inr t1 \<Longrightarrow>
   reset new_run t s =
     Inr ((if new_run then
             (if elapsed_time t1 > 0 then
                t1\<lparr>run_times := run_times t1 @ [elapsed_time t1],
                   cpu_run_times := cpu_run_times t1 @
                     [if cpu_time_valid_a t1 then elapsed_cpu_time t1 else - 1]\<rparr>
              else t1)
           else t1\<lparr>run_times := [], cpu_run_times := []\<rparr>)
          \<lparr>elapsed_time := 0, elapsed_cpu_time := 0,
           cpu_time_valid_a := True, cpu_time_valid_b := True\<rparr>)"
  by (simp add: reset_def Let_def)

subsection \<open>The invariant holds in every state a sequence of calls reaches\<close>

lemma timer_inv_members: "timer_inv (Timer_members nm u p)"
  by (simp add: timer_inv_def Timer_members_def)

lemma timer_inv_start: "timer_inv t \<Longrightarrow> timer_inv (start t s)"
  by (simp add: timer_inv_def start_keeps)

lemma timer_inv_new: "timer_inv (Timer_new nm u a p s)"
  by (simp add: Timer_new_def timer_inv_members timer_inv_start)

lemma timer_inv_stop: "timer_inv t \<Longrightarrow> stop t s = Inr t' \<Longrightarrow> timer_inv t'"
  using stop_elapsed_mono [of t s t'] stop_keeps_histories [of t s t']
  by (simp add: timer_inv_def)

lemma timer_inv_reset: "timer_inv t \<Longrightarrow> reset new_run t s = Inr t' \<Longrightarrow> timer_inv t'"
proof -
  assume inv: "timer_inv t" and r: "reset new_run t s = Inr t'"
  from r obtain t1 where s1: "stop t s = Inr t1" using reset_Inr by blast
  have i1: "timer_inv t1" using inv s1 by (rule timer_inv_stop)
  show ?thesis using r i1 unfolding reset_after_stop [OF s1]
    by (auto simp: timer_inv_def split: if_splits)
qed

lemma timer_inv_step: "timer_inv t \<Longrightarrow> step t c = Inr t' \<Longrightarrow> timer_inv t'"
  by (cases c) (auto intro: timer_inv_start timer_inv_stop timer_inv_reset)

lemma timer_inv_calls: "timer_inv t \<Longrightarrow> calls t cs = Inr t' \<Longrightarrow> timer_inv t'"
proof (induction cs arbitrary: t)
  case Nil
  then show ?case by simp
next
  case (Cons c cs)
  then show ?case
    by (cases "step t c") (auto dest: timer_inv_step)
qed

lemma reachable_inv: "calls (Timer_new nm u a p s0) cs = Inr t \<Longrightarrow> timer_inv t"
  using timer_inv_calls [OF timer_inv_new] .

subsection \<open>Truncating division by two\<close>

lemma cdiv_2: "cdiv x 2 = (if 0 \<le> x then x div 2 else - ((- x) div 2))"
  by (simp add: cdiv_def sgn_if)

lemma cdiv_2_close: "\<bar>2 * cdiv x 2 - x\<bar> \<le> 1"
  unfolding cdiv_2 by presburger

lemma corrected_wall_close:
  "0 \<le> di \<Longrightarrow> 0 \<le> do \<Longrightarrow>
   \<bar>2 * (di + cdiv di 2 - cdiv do 2 - 2 * cd) - (3 * di - do - 4 * cd)\<bar> \<le> 1"
  unfolding cdiv_2 by presburger

lemma corrected_cpu_close:
  "\<bar>2 * (di - cdiv (do - di) 2) - (3 * di - do)\<bar> \<le> 1"
  unfolding cdiv_2 by presburger

subsection \<open>The example states\<close>

lemmas ex_defs = ex_start_def ex_stop_def ex_start_cpu_def ex_stop_cpu_def
  ex_paused_def ex_committed_def

lemmas timer_defs = stop_def start_def reset_def Timer_new_def Timer_members_def
  getCpuTime_def internalGetDuration_def cdiv_2 Let_def

lemmas D_defs = D_inner_def D_outer_def D_inner_cpu_def D_outer_cpu_def cpu_diff_of_def

lemma ex_new_stop: "stop (Timer_new ''t'' Default True False ex_start) ex_stop = Inr ex_paused"
  by (simp add: timer_defs ex_defs)

lemma ex_paused_reset: "reset True ex_paused ex_stop = Inr ex_committed"
  by (simp add: timer_defs ex_defs)

subsection \<open>The corrected durations\<close>

lemma stop_wall_added:
  "running t \<Longrightarrow> stop t s = Inr t' \<Longrightarrow>
   elapsed_time t' - elapsed_time t =
     D_inner t s + cdiv (D_inner t s) 2 - cdiv (D_outer t s) 2 - 2 * cpu_diff_of t s"
  by (auto simp: stop_def Let_def getCpuTime_def internalGetDuration_def D_defs
      split: if_splits option.splits)

lemma stop_cpu_added:
  "running t \<Longrightarrow> stop t s = Inr t' \<Longrightarrow> cpu_time_valid_a t \<Longrightarrow> cpu_time_valid_b t \<Longrightarrow>
   rd_time_b s = Some time_b \<Longrightarrow> rd_time_a s = Some time_a \<Longrightarrow>
   elapsed_cpu_time t' - elapsed_cpu_time t =
     D_inner_cpu t time_b - cdiv (D_outer_cpu t time_a - D_inner_cpu t time_b) 2"
  by (auto simp: stop_def Let_def getCpuTime_def D_defs split: if_splits)

text \<open>
  C1. A call of \<open>stop()\<close> on a running timer that returns adds to the wall accumulator
  \<open>D_inner + D_inner / 2 - D_outer / 2 - 2 * cpu_diff\<close>, with the truncating division
  of \<open>long\<close>: this is \<open>1.5 * D_inner - 0.5 * D_outer - 2 * cpu_diff\<close> up to half a
  nanosecond of rounding when the two wall durations are not negative. \<open>cpu_diff\<close> is 0
  unless all four CPU samples are valid. When they are, the call adds
  \<open>D_inner_cpu - cpu_diff / 2\<close> to the CPU accumulator, which is
  \<open>1.5 * D_inner_cpu - 0.5 * D_outer_cpu\<close> up to half a nanosecond.
\<close>

theorem stop_adds_corrected:
  assumes "running t" and "stop t s = Inr t'"
  shows "elapsed_time t' - elapsed_time t =
           D_inner t s + cdiv (D_inner t s) 2 - cdiv (D_outer t s) 2 - 2 * cpu_diff_of t s \<and>
         (0 \<le> D_inner t s \<and> 0 \<le> D_outer t s \<longrightarrow>
            \<bar>2 * (elapsed_time t' - elapsed_time t) -
              (3 * D_inner t s - D_outer t s - 4 * cpu_diff_of t s)\<bar> \<le> 1) \<and>
         (cpu_time_valid_a t \<and> cpu_time_valid_b t \<and>
          rd_time_b s = Some time_b \<and> rd_time_a s = Some time_a \<longrightarrow>
            cpu_diff_of t s = D_outer_cpu t time_a - D_inner_cpu t time_b \<and>
            elapsed_cpu_time t' - elapsed_cpu_time t =
              D_inner_cpu t time_b - cdiv (cpu_diff_of t s) 2 \<and>
            \<bar>2 * (elapsed_cpu_time t' - elapsed_cpu_time t) -
              (3 * D_inner_cpu t time_b - D_outer_cpu t time_a)\<bar> \<le> 1)"
proof (intro conjI impI)
  show w: "elapsed_time t' - elapsed_time t =
      D_inner t s + cdiv (D_inner t s) 2 - cdiv (D_outer t s) 2 - 2 * cpu_diff_of t s"
    using assms by (rule stop_wall_added)
  assume "0 \<le> D_inner t s \<and> 0 \<le> D_outer t s"
  then show "\<bar>2 * (elapsed_time t' - elapsed_time t) -
      (3 * D_inner t s - D_outer t s - 4 * cpu_diff_of t s)\<bar> \<le> 1"
    unfolding w using corrected_wall_close by blast
next
  assume v: "cpu_time_valid_a t \<and> cpu_time_valid_b t \<and>
    rd_time_b s = Some time_b \<and> rd_time_a s = Some time_a"
  then show d: "cpu_diff_of t s = D_outer_cpu t time_a - D_inner_cpu t time_b"
    by (simp add: cpu_diff_of_def)
  have c: "elapsed_cpu_time t' - elapsed_cpu_time t =
      D_inner_cpu t time_b - cdiv (D_outer_cpu t time_a - D_inner_cpu t time_b) 2"
    using assms v stop_cpu_added [of t s t' time_b time_a] by simp
  then show "elapsed_cpu_time t' - elapsed_cpu_time t =
      D_inner_cpu t time_b - cdiv (cpu_diff_of t s) 2"
    by (simp add: d)
  show "\<bar>2 * (elapsed_cpu_time t' - elapsed_cpu_time t) -
      (3 * D_inner_cpu t time_b - D_outer_cpu t time_a)\<bar> \<le> 1"
    unfolding c by (rule corrected_cpu_close)
qed

theorem stop_adds_corrected_witness:
  "running ex_running_cpu \<and> stop ex_running_cpu ex_stop_cpu = Inr ex_stopped_cpu \<and>
   D_inner ex_running_cpu ex_stop_cpu = 110 \<and> D_outer ex_running_cpu ex_stop_cpu = 140 \<and>
   D_inner_cpu ex_running_cpu 107 = 100 \<and> D_outer_cpu ex_running_cpu 111 = 106 \<and>
   cpu_time_valid_a ex_running_cpu \<and> cpu_time_valid_b ex_running_cpu \<and>
   rd_time_b ex_stop_cpu = Some 107 \<and> rd_time_a ex_stop_cpu = Some 111 \<and>
   cpu_diff_of ex_running_cpu ex_stop_cpu = 6 \<and>
   elapsed_time ex_stopped_cpu - elapsed_time ex_running_cpu = 110 + 55 - 70 - 2 * 6 \<and>
   elapsed_cpu_time ex_stopped_cpu - elapsed_cpu_time ex_running_cpu = 100 - 3"
proof -
  have r: "running ex_running_cpu"
    by (simp add: ex_running_cpu_def timer_defs ex_defs)
  have s: "stop ex_running_cpu ex_stop_cpu = Inr ex_stopped_cpu"
    by (simp add: ex_running_cpu_def ex_stopped_cpu_def timer_defs ex_defs)
  have d: "D_inner ex_running_cpu ex_stop_cpu = 110" "D_outer ex_running_cpu ex_stop_cpu = 140"
    "D_inner_cpu ex_running_cpu 107 = 100" "D_outer_cpu ex_running_cpu 111 = 106"
    by (simp_all add: D_defs ex_running_cpu_def timer_defs ex_defs)
  have v: "cpu_time_valid_a ex_running_cpu \<and> cpu_time_valid_b ex_running_cpu \<and>
    rd_time_b ex_stop_cpu = Some 107 \<and> rd_time_a ex_stop_cpu = Some 111"
    by (simp add: ex_running_cpu_def timer_defs ex_defs)
  have c2: "cdiv 110 2 = 55" "cdiv 140 2 = 70" "cdiv 6 2 = 3" by (simp_all add: cdiv_2)
  show ?thesis
    using stop_adds_corrected [OF r s, of 107 111] r s d v c2 by simp
qed

text \<open>
  C2. The corrected duration is negative on monotonic samples where the outer wall
  duration is long against the inner one, and the assertion \<open>elapsed >= 0\<close> of
  \<open>stop()\<close> then fails. First a timer with no CPU clock, started at 0 and 10 and stopped
  at 11 and 21 (1 + 0 - 10 = -9); then a timer with a CPU clock, wall samples 0, 100,
  200, 400 and CPU samples 0, 10, 20, 30 (100 + 50 - 200 - 2 * 20 = -90).
\<close>

theorem stop_assertion_fails:
  "stop (Timer_new ''t'' Default True False
           \<lparr>rd_start_a = 0, rd_start_b = 10, rd_cpu_start_a = None, rd_cpu_start_b = None\<rparr>)
        \<lparr>rd_time_b = None, rd_time_a = None, rd_time_point_b = 11, rd_time_point_a = 21\<rparr>
     = Inl AssertionFailed \<and>
   stop (Timer_new ''t'' Default True False
           \<lparr>rd_start_a = 0, rd_start_b = 100, rd_cpu_start_a = Some 0, rd_cpu_start_b = Some 10\<rparr>)
        \<lparr>rd_time_b = Some 20, rd_time_a = Some 30, rd_time_point_b = 200, rd_time_point_a = 400\<rparr>
     = Inl AssertionFailed"
  by (simp add: timer_defs)

subsection \<open>Committing and clearing runs\<close>

text \<open>
  C3. In every state that a sequence of calls reaches from the constructor,
  \<open>reset(true)\<close> first stops the timer (\<open>t1\<close> is the stopped timer), appends the wall
  accumulator to \<open>run_times\<close> and the CPU accumulator, or -1 when \<open>cpu_time_valid_a\<close>
  is unset, to \<open>cpu_run_times\<close> exactly when the wall accumulator is not zero, and
  leaves both accumulators zero, both validity flags set and the timer stopped.
\<close>

theorem reset_true_commits:
  assumes "calls (Timer_new nm u a p s0) cs = Inr t" and "stop t s = Inr t1"
  shows "\<exists>t'. reset True t s = Inr t' \<and>
     run_times t' =
       (if elapsed_time t1 \<noteq> 0 then run_times t @ [elapsed_time t1] else run_times t) \<and>
     cpu_run_times t' =
       (if elapsed_time t1 \<noteq> 0
        then cpu_run_times t @ [if cpu_time_valid_a t1 then elapsed_cpu_time t1 else - 1]
        else cpu_run_times t) \<and>
     elapsed_time t' = 0 \<and> elapsed_cpu_time t' = 0 \<and>
     cpu_time_valid_a t' \<and> cpu_time_valid_b t' \<and> \<not> running t'"
proof -
  have "timer_inv t" using assms(1) by (rule reachable_inv)
  then have "timer_inv t1" using assms(2) by (rule timer_inv_stop)
  then have nonneg: "0 \<le> elapsed_time t1" by (simp add: timer_inv_def)
  show ?thesis
    using nonneg stop_Inr_stopped [OF assms(2)] stop_keeps_histories [OF assms(2)]
    by (simp add: reset_after_stop [OF assms(2)])
qed

theorem reset_true_commits_witness:
  "calls (Timer_new ''t'' Default True False ex_start) [] =
     Inr (Timer_new ''t'' Default True False ex_start) \<and>
   stop (Timer_new ''t'' Default True False ex_start) ex_stop =
     Inr ((Timer_new ''t'' Default True False ex_start)
            \<lparr>cpu_time_valid_a := False, cpu_time_valid_b := False,
             elapsed_time := 90, running := False\<rparr>) \<and>
   (\<exists>t'. reset True (Timer_new ''t'' Default True False ex_start) ex_stop = Inr t' \<and>
      run_times t' = [90] \<and> cpu_run_times t' = [- 1] \<and> elapsed_time t' = 0)"
proof -
  let ?t = "Timer_new ''t'' Default True False ex_start"
  let ?t1 = "?t\<lparr>cpu_time_valid_a := False, cpu_time_valid_b := False,
                elapsed_time := 90, running := False\<rparr>"
  have h1: "calls ?t [] = Inr ?t" by simp
  have h2: "stop ?t ex_stop = Inr ?t1"
    by (simp add: stop_def Timer_new_def Timer_members_def start_def getCpuTime_def
        ex_start_def ex_stop_def internalGetDuration_def cdiv_2)
  have h3: "run_times ?t = []" "cpu_run_times ?t = []"
    by (simp_all add: Timer_new_def start_keeps Timer_members_def)
  show ?thesis
    using reset_true_commits [OF h1 h2] h1 h2 h3 by auto
qed

text \<open>
  C4. \<open>start()\<close> on a running timer and \<open>stop()\<close> on a stopped timer return the object
  as it was, without failure; a \<open>stop()\<close> that follows a \<open>stop()\<close> changes nothing.
\<close>

theorem start_stop_no_op:
  "(running t \<longrightarrow> start t s = t) \<and> (\<not> running t \<longrightarrow> stop t r = Inr t)
   \<and> (stop t r = Inr t' \<longrightarrow> stop t' r' = Inr t')"
  by (simp add: start_def stop_not_running stop_Inr_stopped)

theorem start_stop_no_op_witness:
  "running (Timer_new ''t'' Default True False ex_start) \<and>
   start (Timer_new ''t'' Default True False ex_start) ex_start_cpu =
     Timer_new ''t'' Default True False ex_start \<and>
   \<not> running ex_committed \<and>
   stop ex_committed ex_stop_cpu = Inr ex_committed \<and>
   stop (Timer_new ''t'' Default True False ex_start) ex_stop = Inr ex_paused \<and>
   stop ex_paused ex_stop_cpu = Inr ex_paused"
proof -
  have r: "running (Timer_new ''t'' Default True False ex_start)"
    by (simp add: timer_defs ex_defs)
  have n: "\<not> running ex_committed" by (simp add: ex_defs)
  note a = start_stop_no_op [of "Timer_new ''t'' Default True False ex_start" ex_start_cpu
      ex_stop ex_paused ex_stop_cpu]
  note b = start_stop_no_op [of ex_committed ex_start ex_stop_cpu ex_committed ex_stop]
  show ?thesis using a b r n ex_new_stop by simp
qed
lemma step_histories:
  "step t0 c = Inr t1 \<Longrightarrow>
     (case c of
        Reset new_run s \<Rightarrow>
          if new_run then
            (run_times t1 = run_times t0 \<and> cpu_run_times t1 = cpu_run_times t0) \<or>
            (\<exists>w v. run_times t1 = run_times t0 @ [w] \<and> cpu_run_times t1 = cpu_run_times t0 @ [v])
          else run_times t1 = [] \<and> cpu_run_times t1 = []
      | _ \<Rightarrow> run_times t1 = run_times t0 \<and> cpu_run_times t1 = cpu_run_times t0)"
proof (cases c)
  case (Reset new_run s)
  assume st: "step t0 c = Inr t1"
  then have r: "reset new_run t0 s = Inr t1" using Reset by simp
  then obtain t' where s1: "stop t0 s = Inr t'" using reset_Inr by blast
  show ?thesis
    using r stop_keeps_histories [OF s1] unfolding reset_after_stop [OF s1] Reset
    by (auto split: if_splits)
qed (auto simp: start_keeps dest: stop_keeps_histories)

text \<open>
  C5. After every sequence of calls on a constructed timer the two histories have the
  same length. A single call leaves both as they were, except \<open>reset(true)\<close>, which
  leaves them or appends one entry to each, and \<open>reset(false)\<close>, which empties both.
\<close>

theorem histories_parallel:
  "(calls (Timer_new nm u a p s0) cs = Inr t \<longrightarrow>
      length (run_times t) = length (cpu_run_times t)) \<and>
   (step t0 c = Inr t1 \<longrightarrow>
     (case c of
        Reset new_run s \<Rightarrow>
          if new_run then
            (run_times t1 = run_times t0 \<and> cpu_run_times t1 = cpu_run_times t0) \<or>
            (\<exists>w v. run_times t1 = run_times t0 @ [w] \<and> cpu_run_times t1 = cpu_run_times t0 @ [v])
          else run_times t1 = [] \<and> cpu_run_times t1 = []
      | _ \<Rightarrow> run_times t1 = run_times t0 \<and> cpu_run_times t1 = cpu_run_times t0))"
proof (intro conjI impI)
  assume "calls (Timer_new nm u a p s0) cs = Inr t"
  then have "timer_inv t" by (rule reachable_inv)
  then show "length (run_times t) = length (cpu_run_times t)" by (simp add: timer_inv_def)
next
  assume "step t0 c = Inr t1"
  then show "case c of
        Reset new_run s \<Rightarrow>
          if new_run then
            (run_times t1 = run_times t0 \<and> cpu_run_times t1 = cpu_run_times t0) \<or>
            (\<exists>w v. run_times t1 = run_times t0 @ [w] \<and> cpu_run_times t1 = cpu_run_times t0 @ [v])
          else run_times t1 = [] \<and> cpu_run_times t1 = []
      | _ \<Rightarrow> run_times t1 = run_times t0 \<and> cpu_run_times t1 = cpu_run_times t0"
    by (rule step_histories)
qed

theorem histories_parallel_witness:
  "calls (Timer_new ''t'' Default True False ex_start) [Stop ex_stop, Reset True ex_stop] =
     Inr ex_committed \<and>
   length (run_times ex_committed) = length (cpu_run_times ex_committed) \<and>
   step ex_paused (Reset True ex_stop) = Inr ex_committed \<and>
   run_times ex_committed = run_times ex_paused @ [90] \<and>
   cpu_run_times ex_committed = cpu_run_times ex_paused @ [- 1]"
proof -
  have c: "calls (Timer_new ''t'' Default True False ex_start) [Stop ex_stop, Reset True ex_stop] =
     Inr ex_committed"
    by (simp add: ex_new_stop ex_paused_reset)
  have s: "step ex_paused (Reset True ex_stop) = Inr ex_committed"
    by (simp add: ex_paused_reset)
  have v: "run_times ex_committed = run_times ex_paused @ [90] \<and>
     cpu_run_times ex_committed = cpu_run_times ex_paused @ [- 1]"
    by (simp add: ex_defs)
  note th = histories_parallel [of "''t''" Default True False ex_start
      "[Stop ex_stop, Reset True ex_stop]" ex_committed ex_paused "Reset True ex_stop" ex_committed]
  show ?thesis using th c s v by simp
qed

text \<open>
  C9. Whenever the implicit \<open>stop()\<close> passes its assertions, \<open>reset(false)\<close> returns
  with both histories empty, both accumulators zero and the timer stopped.
\<close>

theorem reset_false_clears:
  "stop t s \<noteq> Inl AssertionFailed \<longrightarrow>
     (\<exists>t'. reset False t s = Inr t' \<and> run_times t' = [] \<and> cpu_run_times t' = [] \<and>
        elapsed_time t' = 0 \<and> elapsed_cpu_time t' = 0 \<and> \<not> running t')"
proof
  assume "stop t s \<noteq> Inl AssertionFailed"
  then obtain t1 where s1: "stop t s = Inr t1"
  proof (cases "stop t s")
    case (Inl e)
    then show ?thesis using \<open>stop t s \<noteq> Inl AssertionFailed\<close> by (cases e) simp
  next
    case (Inr t1)
    then show ?thesis using that by simp
  qed
  show "\<exists>t'. reset False t s = Inr t' \<and> run_times t' = [] \<and> cpu_run_times t' = [] \<and>
        elapsed_time t' = 0 \<and> elapsed_cpu_time t' = 0 \<and> \<not> running t'"
    using stop_Inr_stopped [OF s1] by (simp add: reset_after_stop [OF s1])
qed

theorem reset_false_clears_witness:
  "stop (start ex_committed ex_start) ex_stop \<noteq> Inl AssertionFailed \<and>
   run_times (start ex_committed ex_start) = [90] \<and>
   running (start ex_committed ex_start) \<and>
   (\<exists>t'. reset False (start ex_committed ex_start) ex_stop = Inr t' \<and>
      run_times t' = [] \<and> cpu_run_times t' = [] \<and>
      elapsed_time t' = 0 \<and> elapsed_cpu_time t' = 0 \<and> \<not> running t')"
proof -
  have h: "stop (start ex_committed ex_start) ex_stop \<noteq> Inl AssertionFailed"
    by (simp add: timer_defs ex_defs)
  have k: "run_times (start ex_committed ex_start) = [90] \<and>
    running (start ex_committed ex_start)"
    by (simp add: timer_defs ex_defs)
  show ?thesis
    using reset_false_clears [of "start ex_committed ex_start" ex_stop] h k by blast
qed

text \<open>
  C10. In a reachable state whose elapsed wall time is not zero while
  \<open>getElapsedCpuTime()\<close> returns -1 or 0, \<open>getRunTimes()\<close> is one entry longer than
  \<open>getCpuRunTimes()\<close>.
\<close>

theorem run_queries_differ:
  assumes "calls (Timer_new nm u a p s0) cs = Inr t"
    and "getElapsedTime t now \<noteq> 0"
    and "getElapsedCpuTime t reading = - 1 \<or> getElapsedCpuTime t reading = 0"
  shows "length (getRunTimes t now) = length (getCpuRunTimes t reading) + 1"
proof -
  have "timer_inv t" using assms(1) by (rule reachable_inv)
  then have "length (run_times t) = length (cpu_run_times t)" by (simp add: timer_inv_def)
  then show ?thesis using assms(2,3)
    by (auto simp: getRunTimes_def getCpuRunTimes_def Let_def)
qed

theorem run_queries_differ_witness:
  "calls (Timer_new ''t'' Default True False ex_start) [Stop ex_stop] = Inr ex_paused \<and>
   getElapsedTime ex_paused 500 = 90 \<and>
   getElapsedCpuTime ex_paused None = - 1 \<and>
   getRunTimes ex_paused 500 = [90] \<and>
   length (getRunTimes ex_paused 500) = length (getCpuRunTimes ex_paused None) + 1"
proof -
  have c: "calls (Timer_new ''t'' Default True False ex_start) [Stop ex_stop] = Inr ex_paused"
    by (simp add: ex_new_stop)
  have e: "getElapsedTime ex_paused 500 = 90"
    by (simp add: getElapsedTime_def ex_defs)
  have u: "getElapsedCpuTime ex_paused None = - 1"
    by (simp add: getElapsedCpuTime_def ex_defs)
  have r: "getRunTimes ex_paused 500 = [90]"
    by (simp add: getRunTimes_def e) (simp add: ex_defs)
  have n: "getElapsedTime ex_paused 500 \<noteq> 0" using e by simp
  show ?thesis
    using run_queries_differ [OF c n disjI1 [OF u]] c e u r by simp
qed

section \<open>Properties of the statistics\<close>

subsection \<open>The two loops skip the entries equal to -1\<close>

lemma loop1_filter:
  "printStats_loop1 (filter (\<lambda>t. t \<noteq> - 1) xs) acc = printStats_loop1 xs acc"
  by (induction xs acc rule: printStats_loop1.induct) simp_all

lemma loop2_filter:
  "printStats_loop2 mean (filter (\<lambda>t. t \<noteq> - 1) xs) var = printStats_loop2 mean xs var"
  by (induction mean xs var rule: printStats_loop2.induct) simp_all

lemma loop1_count:
  "snd (snd (snd (printStats_loop1 xs (a, b, c, n)))) = n + length (filter (\<lambda>t. t \<noteq> - 1) xs)"
  by (induction xs "(a, b, c, n)" arbitrary: a b c n rule: printStats_loop1.induct) simp_all

lemma loop1_sum:
  "fst (snd (snd (printStats_loop1 xs (a, b, c, n)))) = c + sum_list (filter (\<lambda>t. t \<noteq> - 1) xs)"
  by (induction xs "(a, b, c, n)" arbitrary: a b c n rule: printStats_loop1.induct) simp_all

lemma loop1_max_fold:
  "fst (printStats_loop1 xs (a, b, c, n)) = fold max (filter (\<lambda>t. t \<noteq> - 1) xs) a"
  by (induction xs "(a, b, c, n)" arbitrary: a b c n rule: printStats_loop1.induct)
    (simp_all add: max_def)

lemma loop1_min_fold:
  "fst (snd (printStats_loop1 xs (a, b, c, n))) = fold min (filter (\<lambda>t. t \<noteq> - 1) xs) b"
  by (induction xs "(a, b, c, n)" arbitrary: a b c n rule: printStats_loop1.induct)
    (simp_all add: min_def)

lemma loop1_max: "fst (printStats_loop1 xs (a, b, c, n)) = Max (insert a (set (filter (\<lambda>t. t \<noteq> - 1) xs)))"
  using Max.set_eq_fold [of a "filter (\<lambda>t. t \<noteq> - 1) xs"] by (simp add: loop1_max_fold)

lemma loop1_min: "fst (snd (printStats_loop1 xs (a, b, c, n))) = Min (insert b (set (filter (\<lambda>t. t \<noteq> - 1) xs)))"
  using Min.set_eq_fold [of b "filter (\<lambda>t. t \<noteq> - 1) xs"] by (simp add: loop1_min_fold)

lemma locals_filter: "printStats_locals (filter (\<lambda>t. t \<noteq> - 1) xs) = printStats_locals xs"
  by (simp add: printStats_locals_def loop1_filter loop2_filter)

lemma locals_count: "st_count (printStats_locals xs) = length (filter (\<lambda>t. t \<noteq> - 1) xs)"
proof -
  obtain a b c n where r: "printStats_loop1 xs (0, INT64_MAX, 0, 0) = (a, b, c, n)"
    using prod_cases4 by blast
  have "n = length (filter (\<lambda>t. t \<noteq> - 1) xs)"
    using loop1_count [of xs 0 INT64_MAX 0 0] by (simp add: r)
  then show ?thesis by (simp add: printStats_locals_def r Let_def)
qed

lemma locals_fields:
  "st_max (printStats_locals xs) = Max (insert 0 (set (filter (\<lambda>t. t \<noteq> - 1) xs))) \<and>
   st_min (printStats_locals xs) = Min (insert INT64_MAX (set (filter (\<lambda>t. t \<noteq> - 1) xs))) \<and>
   st_sum (printStats_locals xs) = sum_list (filter (\<lambda>t. t \<noteq> - 1) xs) \<and>
   st_count (printStats_locals xs) = length (filter (\<lambda>t. t \<noteq> - 1) xs) \<and>
   st_mean (printStats_locals xs) =
     d_div (Finite (of_int (sum_list (filter (\<lambda>t. t \<noteq> - 1) xs))))
       (Finite (of_nat (length (filter (\<lambda>t. t \<noteq> - 1) xs))))"
proof -
  obtain a b c n where r: "printStats_loop1 xs (0, INT64_MAX, 0, 0) = (a, b, c, n)"
    using prod_cases4 by blast
  have "a = Max (insert 0 (set (filter (\<lambda>t. t \<noteq> - 1) xs)))"
    using loop1_max [of xs 0 INT64_MAX 0 0] by (simp add: r)
  moreover have "b = Min (insert INT64_MAX (set (filter (\<lambda>t. t \<noteq> - 1) xs)))"
    using loop1_min [of xs 0 INT64_MAX 0 0] by (simp add: r)
  moreover have "c = sum_list (filter (\<lambda>t. t \<noteq> - 1) xs)"
    using loop1_sum [of xs 0 INT64_MAX 0 0] by (simp add: r)
  moreover have "n = length (filter (\<lambda>t. t \<noteq> - 1) xs)"
    using loop1_count [of xs 0 INT64_MAX 0 0] by (simp add: r)
  ultimately show ?thesis by (simp add: printStats_locals_def r Let_def)
qed

lemma printStats_filter:
  "printStats put xs unit =
     printStats put (filter (\<lambda>t. t \<noteq> - 1) xs) unit @
       (if filter (\<lambda>t. t \<noteq> - 1) xs \<noteq> [] \<and> length (filter (\<lambda>t. t \<noteq> - 1) xs) \<noteq> length xs
        then endl @ ''Warning: Only '' @ put (Long (int (length (filter (\<lambda>t. t \<noteq> - 1) xs)))) @
             '' of '' @ put (Long (int (length xs))) @ '' had valid times!''
        else [])"
  by (simp add: printStats_def Let_def locals_filter locals_count)

lemma printStats_none:
  "filter (\<lambda>t. t \<noteq> - 1) xs = [] \<Longrightarrow>
   printStats put xs unit = ''None of the runs had valid times!'' \<and>
   st_mean (printStats_locals xs) = NaN"
  using locals_fields [of xs] by (simp add: printStats_def Let_def)

subsection \<open>Examples\<close>

lemma loop1_ex: "printStats_loop1 [100,200,300] (0, INT64_MAX, 0, 0) = (300, 100, 600, 3)"
  by (simp add: INT64_MAX_def)

lemma locals_ex: "printStats_locals [100,200,300] = \<lparr>st_max = 300, st_min = 100, st_sum = 600, st_count = 3, st_mean = Finite 200, st_var = Finite 10000\<rparr>"
  unfolding printStats_locals_def loop1_ex
  by (simp add: square_def d_sub_def size_sub_def)

lemma sqrt_ex: "d_sqrt (Finite 10000) = Finite 100"
proof -
  have "sqrt ((100::real)\<^sup>2) = 100" by (rule real_sqrt_unique) simp_all
  then show ?thesis by simp
qed

lemma printStats_ex:
  "printStats put [100, 200, 300] unit =
     printPaddedString (printTimeString put (Double (Finite 200)) unit 0 @ '' +- '' @
                        printTimeString put (Double (Finite 100)) unit 0) 40 @
     printTimeString put (Long 300) unit 16 @
     printTimeString put (Long 100) unit 16 @
     printTimeString put (Long 600) unit 16"
  unfolding printStats_def locals_ex by (simp add: sqrt_ex)

lemma locals_ex2: "printStats_locals [100, - 1, 200] =
  \<lparr>st_max = 200, st_min = 100, st_sum = 300, st_count = 2, st_mean = Finite 150, st_var = Finite 5000\<rparr>"
proof -
  have l: "printStats_loop1 [100, - 1, 200] (0, INT64_MAX, 0, 0) = (200, 100, 300, 2)"
    by (simp add: INT64_MAX_def)
  show ?thesis unfolding printStats_locals_def l
    by (simp add: square_def d_sub_def size_sub_def)
qed

lemma pad_ex: "printPaddedString ''abc'' 8 = ''  abc   ''"
  by code_simp

text \<open>
  C6. On the runs 100, 200 and 300 ns the locals of \<open>printStats\<close> are: maximum 300,
  minimum 100, sum 600, count 3, mean 200 and variance 20000 / (3 - 1) = 10000, whose
  square root, the deviation that is printed, is 100; and these are the numbers
  \<open>printStats\<close> writes.
\<close>

theorem printStats_100_200_300:
  "printStats_locals [100, 200, 300] =
     \<lparr>st_max = 300, st_min = 100, st_sum = 600, st_count = 3,
      st_mean = Finite 200, st_var = Finite 10000\<rparr> \<and>
   d_sqrt (st_var (printStats_locals [100, 200, 300])) = Finite 100 \<and>
   printStats put [100, 200, 300] unit =
     printPaddedString (printTimeString put (Double (Finite 200)) unit 0 @ '' +- '' @
                        printTimeString put (Double (Finite 100)) unit 0) 40 @
     printTimeString put (Long 300) unit 16 @
     printTimeString put (Long 100) unit 16 @
     printTimeString put (Long 600) unit 16"
  using locals_ex sqrt_ex printStats_ex [of put unit] by simp

text \<open>
  C7. The locals of \<open>printStats\<close> are those of the list without its entries equal to
  -1: the maximum, the minimum, the sum, the count and the mean range over the other
  entries only. The output is the output for that list, followed by the warning line
  with the count and the size when some but not all entries are valid. With no valid
  entry the output is the sentence that none of the runs had valid times; the division
  for the mean yields a NaN there. For 100, -1, 200 the count is 2 and the warning reads
  2 of 3.
\<close>

theorem printStats_skips_sentinel:
  "printStats_locals xs = printStats_locals (filter (\<lambda>t. t \<noteq> - 1) xs) \<and>
   st_max (printStats_locals xs) = Max (insert 0 (set (filter (\<lambda>t. t \<noteq> - 1) xs))) \<and>
   st_min (printStats_locals xs) = Min (insert INT64_MAX (set (filter (\<lambda>t. t \<noteq> - 1) xs))) \<and>
   st_sum (printStats_locals xs) = sum_list (filter (\<lambda>t. t \<noteq> - 1) xs) \<and>
   st_count (printStats_locals xs) = length (filter (\<lambda>t. t \<noteq> - 1) xs) \<and>
   st_mean (printStats_locals xs) =
     d_div (Finite (of_int (sum_list (filter (\<lambda>t. t \<noteq> - 1) xs))))
       (Finite (of_nat (length (filter (\<lambda>t. t \<noteq> - 1) xs)))) \<and>
   printStats put xs unit =
     printStats put (filter (\<lambda>t. t \<noteq> - 1) xs) unit @
       (if filter (\<lambda>t. t \<noteq> - 1) xs \<noteq> [] \<and> length (filter (\<lambda>t. t \<noteq> - 1) xs) \<noteq> length xs
        then endl @ ''Warning: Only '' @ put (Long (int (length (filter (\<lambda>t. t \<noteq> - 1) xs)))) @
             '' of '' @ put (Long (int (length xs))) @ '' had valid times!''
        else []) \<and>
   (filter (\<lambda>t. t \<noteq> - 1) xs = [] \<longrightarrow>
      printStats put xs unit = ''None of the runs had valid times!'' \<and>
      st_mean (printStats_locals xs) = NaN) \<and>
   printStats_locals [100, - 1, 200] =
     \<lparr>st_max = 200, st_min = 100, st_sum = 300, st_count = 2,
      st_mean = Finite 150, st_var = Finite 5000\<rparr> \<and>
   printStats put [100, - 1, 200] unit =
     printPaddedString (printTimeString put (Double (Finite 150)) unit 0 @ '' +- '' @
                        printTimeString put (Double (d_sqrt (Finite 5000))) unit 0) 40 @
     printTimeString put (Long 200) unit 16 @
     printTimeString put (Long 100) unit 16 @
     printTimeString put (Long 300) unit 16 @
     endl @ ''Warning: Only '' @ put (Long 2) @ '' of '' @ put (Long 3) @ '' had valid times!''"
proof -
  have ex: "printStats put [100, - 1, 200] unit =
     printPaddedString (printTimeString put (Double (Finite 150)) unit 0 @ '' +- '' @
                        printTimeString put (Double (d_sqrt (Finite 5000))) unit 0) 40 @
     printTimeString put (Long 200) unit 16 @
     printTimeString put (Long 100) unit 16 @
     printTimeString put (Long 300) unit 16 @
     endl @ ''Warning: Only '' @ put (Long 2) @ '' of '' @ put (Long 3) @ '' had valid times!''"
    unfolding printStats_def locals_ex2 by simp
  show ?thesis
    using locals_fields [of xs] printStats_filter [of put xs unit] printStats_none [of xs put unit]
      locals_ex2 ex
    by (simp add: locals_filter)
qed

theorem printStats_skips_sentinel_witness:
  "filter (\<lambda>t. t \<noteq> - 1) [- 1, - 1 :: int] = [] \<and>
   printStats ex_put [- 1, - 1] Default = ''None of the runs had valid times!'' \<and>
   st_mean (printStats_locals [- 1, - 1]) = NaN \<and>
   st_count (printStats_locals [- 1, - 1]) = 0"
proof -
  note th = printStats_skips_sentinel [of "[- 1, - 1]" ex_put Default]
  have f: "filter (\<lambda>t. t \<noteq> - 1) [- 1, - 1 :: int] = []" by simp
  have "filter (\<lambda>t. t \<noteq> - 1) [- 1, - 1 :: int] = [] \<longrightarrow>
      printStats ex_put [- 1, - 1] Default = ''None of the runs had valid times!'' \<and>
      st_mean (printStats_locals [- 1, - 1]) = NaN"
    using th apply -
    apply (elim conjE)
    apply assumption
    done
  then have a: "printStats ex_put [- 1, - 1] Default = ''None of the runs had valid times!'' \<and>
      st_mean (printStats_locals [- 1, - 1]) = NaN"
    using f by (rule mp)
  have "st_count (printStats_locals [- 1, - 1]) = length (filter (\<lambda>t. t \<noteq> - 1) [- 1, - 1 :: int])"
    using th apply -
    apply (elim conjE)
    apply assumption
    done
  then have c: "st_count (printStats_locals [- 1, - 1]) = 0" by simp
  show ?thesis using f a c by simp
qed

subsection \<open>The automatic unit\<close>

lemma default_long:
  "printTimeString put (Long n) Default pad = printTimeString put (Long n) (auto_unit (of_int n)) pad"
  by (simp add: printTimeString_def auto_unit_def)

lemma default_double:
  "printTimeString put (Double (Finite r)) Default pad =
   printTimeString put (Double (Finite r)) (auto_unit r) pad"
  by (simp add: printTimeString_def auto_unit_def)

lemma auto_unit_ex:
  "auto_unit 4999 = Nanoseconds \<and> auto_unit 5000 = Microseconds \<and>
   auto_unit 4999999 = Microseconds \<and> auto_unit 5000000 = Milliseconds \<and>
   auto_unit 4999999999 = Milliseconds \<and> auto_unit 5000000000 = Seconds"
  by (simp add: auto_unit_def)

lemma print_ex:
  "printTimeString put (Long 4999) Default pad = printPaddedString (put (Long 4999) @ ''ns'') pad \<and>
   printTimeString put (Long 5000) Default pad =
     printPaddedString (put (Double (Finite 5)) @ ''us'') pad \<and>
   printTimeString put (Long 4999999) Default pad =
     printPaddedString (put (Double (Finite (4999999 / 1000))) @ ''us'') pad \<and>
   printTimeString put (Long 5000000) Default pad =
     printPaddedString (put (Double (Finite 5)) @ ''ms'') pad"
  by (simp add: printTimeString_def)

text \<open>
  C8. With the unit \<open>Default\<close>, \<open>printTimeString\<close> writes a number of nanoseconds as
  it does with the unit the rule of the specification selects: nanoseconds below 5,000,
  microseconds below 5,000,000, milliseconds below 5,000,000,000, seconds from there
  on. So 4999 is written in nanoseconds, 5000 and 4,999,999 in microseconds, and
  5,000,000 in milliseconds.
\<close>

theorem printTimeString_auto_unit:
  "printTimeString put (Long n) Default pad =
     printTimeString put (Long n) (auto_unit (of_int n)) pad \<and>
   printTimeString put (Double (Finite r)) Default pad =
     printTimeString put (Double (Finite r)) (auto_unit r) pad \<and>
   auto_unit 4999 = Nanoseconds \<and> auto_unit 5000 = Microseconds \<and>
   auto_unit 4999999 = Microseconds \<and> auto_unit 5000000 = Milliseconds \<and>
   auto_unit 4999999999 = Milliseconds \<and> auto_unit 5000000000 = Seconds \<and>
   printTimeString put (Long 4999) Default pad = printPaddedString (put (Long 4999) @ ''ns'') pad \<and>
   printTimeString put (Long 5000) Default pad =
     printPaddedString (put (Double (Finite 5)) @ ''us'') pad \<and>
   printTimeString put (Long 4999999) Default pad =
     printPaddedString (put (Double (Finite (4999999 / 1000))) @ ''us'') pad \<and>
   printTimeString put (Long 5000000) Default pad =
     printPaddedString (put (Double (Finite 5)) @ ''ms'') pad"
  using default_long [of put n pad] default_double [of put r pad] auto_unit_ex print_ex [of put pad]
  by simp

end
